theory Spec2Isabelle
  imports Main "HOL-Library.Word"
begin

section \<open>Data shared by the proxy and the response recorder\<close>

text \<open>
  The package \<open>proxy\<close> consists of \<open>writer.go\<close> (the \<open>WriterRecorder\<close>) and the proxy
  itself (\<open>Proxy\<close>, \<open>registerPaths\<close>, \<open>notFound\<close>, \<open>Handler\<close>, \<open>Validate\<close>,
  \<open>validateHeaderValue\<close>, \<open>getOperations\<close>). Everything the package imports
  (\<open>bytes.Buffer\<close>, \<open>net/http\<close>, \<open>encoding/json\<close>, \<open>go-openapi\<close>, \<open>gorilla/mux\<close>) is
  code of other packages: their functions are parameters of the model, collected in
  the records \<open>transport\<close> and \<open>checkers\<close> below.
\<close>

type_synonym byte = "8 word"
type_synonym bytes = "byte list"

text \<open>
  Go's \<open>error\<close> values. \<open>Errorf\<close> is an error built by \<open>fmt.Errorf\<close> in this package,
  \<open>LibError\<close> an error handed back by a library, and \<open>CompositeValidationError\<close> the
  result of \<open>errors.CompositeValidationError(errs...)\<close>, which carries the whole list.
\<close>

datatype error =
    Errorf string
  | LibError string
  | CompositeValidationError "error list"

text \<open>\<open>http.Header\<close> is a \<open>map[string][]string\<close>.\<close>

type_synonym http_header = "string \<rightharpoonup> string list"

text \<open>
  The real response sink, an \<open>http.ResponseWriter\<close>: its header map, and the calls
  \<open>WriteHeader(status)\<close> and \<open>Write(bytes)\<close> it has received, oldest first. What the
  caller of the proxy is sent is determined by these.
\<close>

datatype sink_call = SinkWriteHeader int | SinkWrite bytes

record sink =
  sink_header :: http_header
  sink_calls :: "sink_call list"

text \<open>
  The library functions that move bytes:
  \<^item> \<open>buffer_Write cur p\<close> is \<open>bytes.Buffer.Write(p)\<close> on a buffer holding \<open>cur\<close>: the
    new contents, the count and the error;
  \<^item> \<open>sink_Write_result s p\<close> is what the real sink's \<open>Write(p)\<close> returns when the sink
    is in state \<open>s\<close>;
  \<^item> \<open>canonical_key\<close> is \<open>textproto.CanonicalMIMEHeaderKey\<close>, applied by
    \<open>Header.Get\<close> and \<open>Header.Set\<close>;
  \<^item> \<open>path_matches tpl path\<close> says whether the router's path template \<open>tpl\<close> matches
    the request path.
\<close>

record transport =
  buffer_Write :: "bytes \<Rightarrow> bytes \<Rightarrow> bytes \<times> nat \<times> error option"
  sink_Write_result :: "sink \<Rightarrow> bytes \<Rightarrow> nat \<times> error option"
  canonical_key :: "string \<Rightarrow> string"
  path_matches :: "string \<Rightarrow> string \<Rightarrow> bool"

definition sink_WriteHeader :: "int \<Rightarrow> sink \<Rightarrow> sink" where
  "sink_WriteHeader st s = s\<lparr>sink_calls := sink_calls s @ [SinkWriteHeader st]\<rparr>"

definition sink_Write :: "transport \<Rightarrow> bytes \<Rightarrow> sink \<Rightarrow> (nat \<times> error option) \<times> sink" where
  "sink_Write io p s =
     (sink_Write_result io s p, s\<lparr>sink_calls := sink_calls s @ [SinkWrite p]\<rparr>)"

definition header_Get :: "transport \<Rightarrow> http_header \<Rightarrow> string \<Rightarrow> string" where
  "header_Get io h key =
     (case h (canonical_key io key) of
        None \<Rightarrow> []
      | Some [] \<Rightarrow> []
      | Some (v # _) \<Rightarrow> v)"

definition header_Set :: "transport \<Rightarrow> string \<Rightarrow> string \<Rightarrow> http_header \<Rightarrow> http_header" where
  "header_Set io key v h = h(canonical_key io key \<mapsto> [v])"

definition sink_HeaderSet :: "transport \<Rightarrow> string \<Rightarrow> string \<Rightarrow> sink \<Rightarrow> sink" where
  "sink_HeaderSet io key v s = s\<lparr>sink_header := header_Set io key v (sink_header s)\<rparr>"

text \<open>The body bytes a sink has been written, in order.\<close>

definition written_bytes :: "sink \<Rightarrow> bytes" where
  "written_bytes s =
     concat (map (\<lambda>c. case c of SinkWriteHeader st \<Rightarrow> [] | SinkWrite p \<Rightarrow> p) (sink_calls s))"

section \<open>writer.go: the WriterRecorder\<close>

text \<open>
  \<^verbatim>\<open>type WriterRecorder struct { http.ResponseWriter; status int; body bytes.Buffer }\<close>
  The embedded \<open>ResponseWriter\<close> is the real sink; \<open>Header()\<close> is not overridden, so it
  is the sink's own header map.
\<close>

record WriterRecorder =
  ResponseWriter :: sink
  status :: int
  body :: bytes

text \<open>\<^verbatim>\<open>&WriterRecorder{ResponseWriter: w}\<close>: status 0, empty buffer.\<close>

definition new_WriterRecorder :: "sink \<Rightarrow> WriterRecorder" where
  "new_WriterRecorder w = \<lparr>ResponseWriter = w, status = 0, body = []\<rparr>"

definition WriteHeader :: "int \<Rightarrow> WriterRecorder \<Rightarrow> WriterRecorder" where
  "WriteHeader st w =
     (w\<lparr>ResponseWriter := sink_WriteHeader st (ResponseWriter w)\<rparr>)\<lparr>status := st\<rparr>"

definition Write :: "transport \<Rightarrow> bytes \<Rightarrow> WriterRecorder \<Rightarrow> (nat \<times> error option) \<times> WriterRecorder" where
  "Write io p w =
     (case buffer_Write io (body w) p of
        (buf, n, Some err) \<Rightarrow> ((n, Some err), w\<lparr>body := buf\<rparr>)
      | (buf, n, None) \<Rightarrow>
          (case sink_Write io p (ResponseWriter w) of
             (res, s) \<Rightarrow> (res, w\<lparr>ResponseWriter := s, body := buf\<rparr>)))"

definition Body :: "WriterRecorder \<Rightarrow> bytes" where
  "Body w = body w"

definition Status :: "WriterRecorder \<Rightarrow> int" where
  "Status w = status w"

text \<open>
  \<open>bytes.Buffer.Write\<close> as the Go library documents it: the bytes are appended, the
  count is \<open>len(p)\<close> and the error is always nil.
\<close>

definition go_buffer_Write :: "bytes \<Rightarrow> bytes \<Rightarrow> bytes \<times> nat \<times> error option" where
  "go_buffer_Write cur p = (cur @ p, length p, None)"

text \<open>A buffer that refuses to grow beyond \<open>cap\<close> bytes, to exercise the error branch.\<close>

definition capped_buffer_Write :: "nat \<Rightarrow> bytes \<Rightarrow> bytes \<Rightarrow> bytes \<times> nat \<times> error option" where
  "capped_buffer_Write cap cur p =
     (if length cur + length p \<le> cap then (cur @ p, length p, None)
      else (cur, 0, Some (LibError ''bytes.Buffer: too large'')))"

section \<open>A backend handler, as the calls it makes on its response writer\<close>

text \<open>
  An \<open>http.Handler\<close> is given a response writer and calls \<open>Header().Set\<close>,
  \<open>WriteHeader\<close> and \<open>Write\<close> on it; what it does next may depend on what \<open>Write\<close>
  returned.
\<close>

datatype handler_prog =
    Return
  | CallHeaderSet string string handler_prog
  | CallWriteHeader int handler_prog
  | CallWrite bytes "nat \<times> error option \<Rightarrow> handler_prog"

text \<open>\<open>next.ServeHTTP(w, req)\<close> with \<open>w\<close> the real sink.\<close>

primrec serve_sink :: "transport \<Rightarrow> handler_prog \<Rightarrow> sink \<Rightarrow> sink" where
  "serve_sink io Return s = s"
| "serve_sink io (CallHeaderSet key v k) s = serve_sink io k (sink_HeaderSet io key v s)"
| "serve_sink io (CallWriteHeader st k) s = serve_sink io k (sink_WriteHeader st s)"
| "serve_sink io (CallWrite p k) s =
     serve_sink io (k (fst (sink_Write io p s))) (snd (sink_Write io p s))"

text \<open>\<open>next.ServeHTTP(wr, req)\<close> with \<open>wr\<close> a \<open>WriterRecorder\<close>.\<close>

primrec serve_recorder :: "transport \<Rightarrow> handler_prog \<Rightarrow> WriterRecorder \<Rightarrow> WriterRecorder" where
  "serve_recorder io Return w = w"
| "serve_recorder io (CallHeaderSet key v k) w =
     serve_recorder io k (w\<lparr>ResponseWriter := sink_HeaderSet io key v (ResponseWriter w)\<rparr>)"
| "serve_recorder io (CallWriteHeader st k) w = serve_recorder io k (WriteHeader st w)"
| "serve_recorder io (CallWrite p k) w =
     serve_recorder io (k (fst (Write io p w))) (snd (Write io p w))"

text \<open>The arguments of the \<open>WriteHeader\<close> calls a handler makes on a recorder, in order.\<close>

primrec WriteHeader_calls :: "transport \<Rightarrow> handler_prog \<Rightarrow> WriterRecorder \<Rightarrow> int list" where
  "WriteHeader_calls io Return w = []"
| "WriteHeader_calls io (CallHeaderSet key v k) w =
     WriteHeader_calls io k (w\<lparr>ResponseWriter := sink_HeaderSet io key v (ResponseWriter w)\<rparr>)"
| "WriteHeader_calls io (CallWriteHeader st k) w = st # WriteHeader_calls io k (WriteHeader st w)"
| "WriteHeader_calls io (CallWrite p k) w =
     WriteHeader_calls io (k (fst (Write io p w))) (snd (Write io p w))"

section \<open>The contract document (go-openapi \<open>spec\<close>), as far as the proxy reads it\<close>

text \<open>
  \<open>spec.Header\<close>: only \<open>Format\<close> is read. \<open>spec.Response\<close>: \<open>Headers\<close> is a Go map that
  \<open>Validate\<close> ranges over, so it is listed in the order of that iteration (which Go
  leaves open); \<open>Schema\<close> is a pointer, nil when no body schema is declared.
  \<open>spec.Operation\<close>: \<open>Responses\<close> is a pointer to a \<open>spec.Responses\<close>, whose
  \<open>StatusCodeResponses\<close> is a \<open>map[int]Response\<close>. \<open>spec.PathItem\<close> has one pointer per
  HTTP method. \<open>'s\<close> is the type of schemas.
\<close>

record header_spec =
  Format :: string

record 's response_spec =
  Headers :: "(string \<times> header_spec) list"
  Schema :: "'s option"

record 's responses_spec =
  StatusCodeResponses :: "int \<rightharpoonup> 's response_spec"

record 's operation =
  Responses :: "'s responses_spec option"

record 's path_item =
  Get :: "'s operation option"
  Put :: "'s operation option"
  Post :: "'s operation option"
  Delete :: "'s operation option"
  Options :: "'s operation option"
  Head :: "'s operation option"
  Patch :: "'s operation option"

text \<open>
  \<open>getOperations\<close> returns a Go map; it never holds more than one entry, and it is
  given here as the list of its entries.
\<close>

definition getOperations :: "'s path_item \<Rightarrow> (string \<times> 's operation) list" where
  "getOperations props =
     (case Delete props of Some op \<Rightarrow> [(''DELETE'', op)] | None \<Rightarrow>
      case Get props of Some op \<Rightarrow> [(''GET'', op)] | None \<Rightarrow>
      case Head props of Some op \<Rightarrow> [(''HEAD'', op)] | None \<Rightarrow>
      case Options props of Some op \<Rightarrow> [(''OPTIONS'', op)] | None \<Rightarrow>
      case Patch props of Some op \<Rightarrow> [(''PATCH'', op)] | None \<Rightarrow>
      case Post props of Some op \<Rightarrow> [(''POST'', op)] | None \<Rightarrow>
      case Put props of Some op \<Rightarrow> [(''PUT'', op)] | None \<Rightarrow> [])"

text \<open>
  The rule in the words of the specification: the methods in the order DELETE, GET,
  HEAD, OPTIONS, PATCH, POST, PUT, and the first of them that the path item declares.
\<close>

definition method_precedence :: "string list" where
  "method_precedence = [''DELETE'', ''GET'', ''HEAD'', ''OPTIONS'', ''PATCH'', ''POST'', ''PUT'']"

definition declared :: "'s path_item \<Rightarrow> string \<Rightarrow> 's operation option" where
  "declared props m =
     (if m = ''DELETE'' then Delete props
      else if m = ''GET'' then Get props
      else if m = ''HEAD'' then Head props
      else if m = ''OPTIONS'' then Options props
      else if m = ''PATCH'' then Patch props
      else if m = ''POST'' then Post props
      else if m = ''PUT'' then Put props
      else None)"

definition first_declared :: "'s path_item \<Rightarrow> (string \<times> 's operation) list" where
  "first_declared props =
     (case find (\<lambda>m. declared props m \<noteq> None) method_precedence of
        None \<Rightarrow> []
      | Some m \<Rightarrow> (case declared props m of None \<Rightarrow> [] | Some op \<Rightarrow> [(m, op)]))"

section \<open>The router (gorilla/mux), as far as the proxy uses it\<close>

text \<open>
  The proxy registers routes with \<open>router.Handle(path, handler).Methods(method)\<close>, sets
  \<open>NotFoundHandler\<close>, and asks \<open>router.Match(req, &match)\<close>. A route is its path template
  and its methods; a \<open>*mux.Route\<close> is identified by its position in the router's list.
  \<open>Match\<close> tries the routes in the order of registration and takes the first whose path
  template and method both match; when none does, the match has no route and the
  router's \<open>NotFoundHandler\<close> as its handler.
\<close>

record request =
  Method :: string
  Path :: string

record mux_route =
  route_path :: string
  route_methods :: "string list"

datatype handler_ref = notFound_handler | new_handler

record mux_router =
  mux_routes :: "mux_route list"
  NotFoundHandler :: "handler_ref option"

record route_match =
  match_Route :: "nat option"
  match_Handler :: "handler_ref option"

definition NewRouter :: mux_router where
  "NewRouter = \<lparr>mux_routes = [], NotFoundHandler = None\<rparr>"

definition router_Handle_Methods :: "mux_router \<Rightarrow> string \<Rightarrow> string \<Rightarrow> nat \<times> mux_router" where
  "router_Handle_Methods r path m =
     (length (mux_routes r),
      r\<lparr>mux_routes := mux_routes r @ [\<lparr>route_path = path, route_methods = [m]\<rparr>]\<rparr>)"

definition route_matches :: "transport \<Rightarrow> request \<Rightarrow> mux_route \<Rightarrow> bool" where
  "route_matches io req rt \<longleftrightarrow>
     path_matches io (route_path rt) (Path req) \<and> Method req \<in> set (route_methods rt)"

fun first_index :: "('a \<Rightarrow> bool) \<Rightarrow> 'a list \<Rightarrow> nat \<Rightarrow> nat option" where
  "first_index P [] i = None"
| "first_index P (x # xs) i = (if P x then Some i else first_index P xs (Suc i))"

definition router_Match :: "transport \<Rightarrow> mux_router \<Rightarrow> request \<Rightarrow> route_match" where
  "router_Match io r req =
     (case first_index (route_matches io req) (mux_routes r) 0 of
        Some i \<Rightarrow> \<lparr>match_Route = Some i, match_Handler = Some new_handler\<rparr>
      | None \<Rightarrow> \<lparr>match_Route = None, match_Handler = NotFoundHandler r\<rparr>)"

section \<open>The proxy\<close>

text \<open>
  The functions of \<open>encoding/json\<close>, \<open>swag\<close>, \<open>strfmt\<close> and \<open>validate\<close> that \<open>Validate\<close>
  calls. \<open>'j\<close> is the type of parsed JSON values (\<open>interface{}\<close>); an error option is
  \<open>None\<close> for a nil error. \<open>schema_Validate schema doc data\<close> is the \<open>Errors\<close> of
  \<open>validate.NewSchemaValidator(schema, doc, "", formats).Validate(data)\<close>.
\<close>

record ('j, 's) checkers =
  json_Unmarshal :: "bytes \<Rightarrow> error + 'j"
  swag_ConvertInt32 :: "string \<Rightarrow> error option"
  strfmt_ParseDateTime :: "string \<Rightarrow> error option"
  schema_Validate :: "'s \<Rightarrow> 'j \<Rightarrow> 'j \<Rightarrow> error list"

text \<open>
  \<open>Proxy\<close>: \<open>routes\<close> is the \<open>map[*mux.Route]*spec.Operation\<close>, \<open>reverseProxy\<close> the handler
  that forwards a request to the backend, given by the calls it makes on its response
  writer for each request. The \<open>reporter\<close> is an interface; the calls made on it are
  recorded in the \<open>world\<close>, next to the caller's response sink.
\<close>

record ('j, 's) Proxy =
  target :: string
  verbose :: bool
  router :: mux_router
  routes :: "nat \<rightharpoonup> 's operation"
  reverseProxy :: "request \<Rightarrow> handler_prog"
  doc :: 'j

datatype notification =
    Warning request string
  | Error request error
  | Success request

record world =
  client :: sink
  reported :: "notification list"

definition report :: "notification \<Rightarrow> world \<Rightarrow> world" where
  "report n wd = wd\<lparr>reported := reported wd @ [n]\<rparr>"

text \<open>\<open>fmt\<close>'s verb \<open>%d\<close> for an \<open>int\<close>.\<close>

fun decimal :: "nat \<Rightarrow> string" where
  "decimal n =
     (if n < 10 then [''0123456789'' ! n]
      else decimal (n div 10) @ [''0123456789'' ! (n mod 10)])"

declare decimal.simps [simp del]

definition fmt_d :: "int \<Rightarrow> string" where
  "fmt_d i = (if i < 0 then CHR ''-'' # decimal (nat (- i)) else decimal (nat i))"

text \<open>
  \<open>registerPaths\<close>: the outer loop ranges over the Go map \<open>paths.Paths\<close>, given as the
  list of its entries in the order of the iteration; the second component of the state
  is what \<open>log.Printf\<close> has printed.
\<close>

definition register_operation ::
  "string \<Rightarrow> string \<times> 's operation \<Rightarrow> ('j, 's) Proxy \<times> string list \<Rightarrow> ('j, 's) Proxy \<times> string list" where
  "register_operation newPath mo st =
     (case (mo, st) of ((method, op), (proxy, logged)) \<Rightarrow>
        (case router_Handle_Methods (router proxy) newPath method of
           (route, r) \<Rightarrow>
             (proxy\<lparr>router := r, routes := (routes proxy)(route \<mapsto> op)\<rparr>,
              if verbose proxy then logged @ [''Register '' @ method @ '' '' @ newPath]
              else logged)))"

definition registerPaths ::
  "string \<Rightarrow> (string \<times> 's path_item) list \<Rightarrow> ('j, 's) Proxy \<times> string list \<Rightarrow> ('j, 's) Proxy \<times> string list" where
  "registerPaths base paths st =
     fold (\<lambda>(path, item). fold (register_operation (base @ path)) (getOperations item)) paths st"

text \<open>
  \<open>New\<close>, from the point where the document has been marshalled to \<open>d\<close>, the options
  have set \<open>target\<close> and \<open>verbose\<close>, and \<open>url.Parse\<close> has accepted the target (the error
  returns before that point build no proxy): a fresh router with the \<open>NotFoundHandler\<close>
  set, then \<open>registerPaths\<close> with the document's base path and path items. \<open>rp\<close> is the
  reverse proxy for the target.
\<close>

definition New ::
  "string \<Rightarrow> (string \<times> 's path_item) list \<Rightarrow> 'j \<Rightarrow> string \<Rightarrow> bool \<Rightarrow> (request \<Rightarrow> handler_prog) \<Rightarrow>
     ('j, 's) Proxy \<times> string list" where
  "New base paths d tgt v rp =
     registerPaths base paths
       (\<lparr>target = tgt, verbose = v,
         router = NewRouter\<lparr>NotFoundHandler := Some notFound_handler\<rparr>,
         routes = Map.empty, reverseProxy = rp, doc = d\<rparr>, [])"

text \<open>
  What a proxy has registered: its router's routes in the order of registration, each
  with the operation that \<open>proxy.routes\<close> holds for it.
\<close>

definition route_table :: "('j, 's) Proxy \<Rightarrow> (mux_route \<times> 's operation option) list" where
  "route_table proxy =
     map (\<lambda>i. (mux_routes (router proxy) ! i, routes proxy i))
       [0 ..< length (mux_routes (router proxy))]"

text \<open>
  The registration in the words of the specification: for every path item, in turn, the
  first declared method in the precedence order, under the path \<open>base + path\<close>.
\<close>

definition selected_routes ::
  "string \<Rightarrow> (string \<times> 's path_item) list \<Rightarrow> (mux_route \<times> 's operation option) list" where
  "selected_routes base paths =
     concat (map (\<lambda>(path, item).
                    map (\<lambda>(m, op). (\<lparr>route_path = base @ path, route_methods = [m]\<rparr>, Some op))
                      (first_declared item))
              paths)"

definition notFound :: "transport \<Rightarrow> ('j, 's) Proxy \<Rightarrow> request \<Rightarrow> world \<Rightarrow> world" where
  "notFound io proxy req wd =
     (let wd1 = report (Warning req ''Route not defined on the Spec'') wd
      in wd1\<lparr>client := serve_sink io (reverseProxy proxy req) (client wd1)\<rparr>)"

definition validateHeaderValue ::
  "('j, 's) checkers \<Rightarrow> string \<Rightarrow> string \<Rightarrow> header_spec \<Rightarrow> error option" where
  "validateHeaderValue vs key val hspec =
     (if val = [] then Some (Errorf (key @ '' in headers is missing''))
      else if Format hspec = ''int32'' then swag_ConvertInt32 vs val
      else if Format hspec = ''date-time'' then strfmt_ParseDateTime vs val
      else None)"

text \<open>The loop of \<open>Validate\<close> over \<open>resp.Headers\<close>, with \<open>errs\<close> as it grows.\<close>

fun check_headers ::
  "transport \<Rightarrow> ('j, 's) checkers \<Rightarrow> http_header \<Rightarrow> (string \<times> header_spec) list \<Rightarrow> error list \<Rightarrow> error list" where
  "check_headers io vs header [] errs = errs"
| "check_headers io vs header ((key, val) # rest) errs =
     (case validateHeaderValue vs key (header_Get io header key) val of
        Some err \<Rightarrow> check_headers io vs header rest (errs @ [err])
      | None \<Rightarrow> check_headers io vs header rest errs)"

definition Validate ::
  "transport \<Rightarrow> ('j, 's) checkers \<Rightarrow> ('j, 's) Proxy \<Rightarrow> int \<Rightarrow> http_header \<Rightarrow> bytes \<Rightarrow> 's response_spec \<Rightarrow>
     error option" where
  "Validate io vs proxy st header bdy resp =
     (case json_Unmarshal vs bdy of
        Inl err \<Rightarrow> Some err
      | Inr data \<Rightarrow>
          (let errs = check_headers io vs header (Headers resp) [];
               errs = (case Schema resp of
                         None \<Rightarrow> errs
                       | Some schema \<Rightarrow>
                           (let result = schema_Validate vs schema (doc proxy) data
                            in if result \<noteq> [] then errs @ result else errs))
           in if length errs = 0 then None else Some (CompositeValidationError errs)))"

text \<open>
  The violations in the words of the specification: one per declared header contract
  that fails, then every violation the schema validator returns.
\<close>

definition header_violations ::
  "transport \<Rightarrow> ('j, 's) checkers \<Rightarrow> http_header \<Rightarrow> (string \<times> header_spec) list \<Rightarrow> error list" where
  "header_violations io vs header hs =
     List.map_filter (\<lambda>(key, val). validateHeaderValue vs key (header_Get io header key) val) hs"

definition schema_violations ::
  "('j, 's) checkers \<Rightarrow> ('j, 's) Proxy \<Rightarrow> 's option \<Rightarrow> 'j \<Rightarrow> error list" where
  "schema_violations vs proxy sch data =
     (case sch of None \<Rightarrow> [] | Some schema \<Rightarrow> schema_Validate vs schema (doc proxy) data)"

text \<open>
  The function that \<open>Handler(next)\<close> returns. A nil \<open>op.Responses\<close> is dereferenced by
  \<open>op.Responses.StatusCodeResponses\<close>: the handler panics, after \<open>next\<close> has run.
\<close>

datatype panic = Nil_pointer_dereference

definition Handler ::
  "transport \<Rightarrow> ('j, 's) checkers \<Rightarrow> ('j, 's) Proxy \<Rightarrow> (request \<Rightarrow> handler_prog) \<Rightarrow> request \<Rightarrow> world \<Rightarrow>
     panic + world" where
  "Handler io vs proxy next req wd =
     (let match = router_Match io (router proxy) req;
          op = (case match_Route match of None \<Rightarrow> None | Some route \<Rightarrow> routes proxy route)
      in case (match_Handler match, op) of
           (None, _) \<Rightarrow> Inr (report (Warning req ''Route not defined on the Spec'') wd)
         | (Some _, None) \<Rightarrow> Inr (report (Warning req ''Route not defined on the Spec'') wd)
         | (Some _, Some op) \<Rightarrow>
             (let wr = serve_recorder io (next req) (new_WriterRecorder (client wd));
                  wd1 = wd\<lparr>client := ResponseWriter wr\<rparr>
              in case Responses op of
                   None \<Rightarrow> Inl Nil_pointer_dereference
                 | Some rs \<Rightarrow>
                     (case StatusCodeResponses rs (Status wr) of
                        None \<Rightarrow>
                          Inr (report (Error req (Errorf (''Server Status '' @ fmt_d (Status wr)
                                                          @ '' not defined by the spec''))) wd1)
                      | Some specResp \<Rightarrow>
                          (case Validate io vs proxy (Status wr) (sink_header (ResponseWriter wr))
                                  (Body wr) specResp of
                             Some err \<Rightarrow> Inr (report (Error req err) wd1)
                           | None \<Rightarrow> Inr (report (Success req) wd1)))))"

text \<open>\<open>newHandler\<close> is \<open>Handler(proxy.reverseProxy)\<close>.\<close>

definition newHandler ::
  "transport \<Rightarrow> ('j, 's) checkers \<Rightarrow> ('j, 's) Proxy \<Rightarrow> request \<Rightarrow> world \<Rightarrow> panic + world" where
  "newHandler io vs proxy = Handler io vs proxy (reverseProxy proxy)"

text \<open>
  \<open>Router()\<close> serving a request (whose path is already clean): the router's match
  picks the handler; without a match and without a \<open>NotFoundHandler\<close> the router
  answers itself with \<open>http.NotFound\<close>.
\<close>

definition http_NotFound :: handler_prog where
  "http_NotFound =
     CallHeaderSet ''Content-Type'' ''text/plain; charset=utf-8''
       (CallHeaderSet ''X-Content-Type-Options'' ''nosniff''
          (CallWriteHeader 404
             (CallWrite (map (\<lambda>c. of_nat (of_char c)) ''404 page not found'' @ [10]) (\<lambda>_. Return))))"

definition Router_ServeHTTP ::
  "transport \<Rightarrow> ('j, 's) checkers \<Rightarrow> ('j, 's) Proxy \<Rightarrow> request \<Rightarrow> world \<Rightarrow> panic + world" where
  "Router_ServeHTTP io vs proxy req wd =
     (case match_Handler (router_Match io (router proxy) req) of
        Some new_handler \<Rightarrow> newHandler io vs proxy req wd
      | Some notFound_handler \<Rightarrow> Inr (notFound io proxy req wd)
      | None \<Rightarrow> Inr (wd\<lparr>client := serve_sink io http_NotFound (client wd)\<rparr>))"

text \<open>
  The operation that governs a request: \<open>proxy.routes[match.Route]\<close> for the route that
  \<open>proxy.router.Match\<close> finds, if any.
\<close>

definition matched_operation ::
  "transport \<Rightarrow> ('j, 's) Proxy \<Rightarrow> request \<Rightarrow> 's operation option" where
  "matched_operation io proxy req =
     (case match_Route (router_Match io (router proxy) req) of
        None \<Rightarrow> None
      | Some route \<Rightarrow> routes proxy route)"

text \<open>The status a recorder ends with, given the \<open>WriteHeader\<close> calls made on it.\<close>

definition last_status :: "int \<Rightarrow> int list \<Rightarrow> int" where
  "last_status st0 sts = (if sts = [] then st0 else last sts)"

section \<open>Concrete inputs\<close>

text \<open>
  A sink that has received nothing; a transport whose buffer is Go's, whose sink accepts
  every write, whose header keys are already canonical and whose path templates are
  literal paths; and the same transport with a buffer of two bytes.
\<close>

definition empty_sink :: sink where
  "empty_sink = \<lparr>sink_header = Map.empty, sink_calls = []\<rparr>"

definition plain_io :: transport where
  "plain_io =
     \<lparr>buffer_Write = go_buffer_Write,
      sink_Write_result = (\<lambda>s p. (length p, None)),
      canonical_key = (\<lambda>key. key),
      path_matches = (\<lambda>tpl path. tpl = path)\<rparr>"

definition capped_io :: transport where
  "capped_io = plain_io\<lparr>buffer_Write := capped_buffer_Write 2\<rparr>"

text \<open>
  Stand-ins for the checking libraries: a JSON parser that rejects the empty input and
  every input not enclosed in braces, and hands the others on as they are, an \<open>int32\<close> parser that wants decimal digits, a
  date-time parser that knows one timestamp, and a schema validator that demands the
  body \<open>{}\<close> for the schema \<open>Empty\<close> and nothing otherwise.
\<close>

definition toy_checkers :: "(bytes, string) checkers" where
  "toy_checkers =
     \<lparr>json_Unmarshal =
        (\<lambda>b. if b = [] then Inl (LibError ''unexpected end of JSON input'')
             else if hd b = 0x7B \<and> last b = 0x7D then Inr b
             else Inl (LibError ''invalid character'')),
      swag_ConvertInt32 =
        (\<lambda>v. if list_all (\<lambda>c. c \<in> set ''0123456789'') v then None
             else Some (LibError ''strconv.ParseInt: invalid syntax'')),
      strfmt_ParseDateTime =
        (\<lambda>v. if v = ''2017-06-01T12:00:00Z'' then None
             else Some (LibError ''cannot parse as date-time'')),
      schema_Validate =
        (\<lambda>schema d data. if schema = ''Empty'' \<and> data \<noteq> [0x7B, 0x7D]
                           then [LibError ''body must be the empty object''] else [])\<rparr>"

text \<open>
  A contract with base path \<open>/api\<close> and one path item \<open>/widgets\<close> that declares GET and
  POST. GET declares the status 200, with two header contracts and a body schema, and
  the status 204, with neither.
\<close>

definition resp_200 :: "string response_spec" where
  "resp_200 =
     \<lparr>Headers = [(''X-Rate-Limit'', \<lparr>Format = ''int32''\<rparr>), (''X-Expires'', \<lparr>Format = ''date-time''\<rparr>)],
      Schema = Some ''Widget''\<rparr>"

definition resp_204 :: "string response_spec" where
  "resp_204 = \<lparr>Headers = [], Schema = None\<rparr>"

definition get_responses :: "string responses_spec" where
  "get_responses = \<lparr>StatusCodeResponses = [200 \<mapsto> resp_200, 204 \<mapsto> resp_204]\<rparr>"

definition get_op :: "string operation" where
  "get_op = \<lparr>Responses = Some get_responses\<rparr>"

definition post_op :: "string operation" where
  "post_op = \<lparr>Responses = Some \<lparr>StatusCodeResponses = [201 \<mapsto> resp_204]\<rparr>\<rparr>"

definition no_operations :: "string path_item" where
  "no_operations =
     \<lparr>Get = None, Put = None, Post = None, Delete = None, Options = None, Head = None, Patch = None\<rparr>"

definition widgets_item :: "string path_item" where
  "widgets_item = no_operations\<lparr>Get := Some get_op, Post := Some post_op\<rparr>"

text \<open>Backends: one that answers 200 with a header and the body \<open>{}\<close>, and others.\<close>

definition backend_ok :: "request \<Rightarrow> handler_prog" where
  "backend_ok req =
     CallHeaderSet ''X-Rate-Limit'' ''10''
       (CallWriteHeader 200 (CallWrite [0x7B, 0x7D] (\<lambda>res. Return)))"

definition backend_404 :: "request \<Rightarrow> handler_prog" where
  "backend_404 req = CallWriteHeader 404 (CallWrite [0x7B, 0x7D] (\<lambda>res. Return))"

definition backend_204 :: "request \<Rightarrow> handler_prog" where
  "backend_204 req = CallWriteHeader 204 Return"

definition backend_body_only :: "request \<Rightarrow> handler_prog" where
  "backend_body_only req = CallWrite [0x7B, 0x7D] (\<lambda>res. Return)"

definition widgets_proxy :: "(bytes, string) Proxy" where
  "widgets_proxy =
     fst (New ''/api'' [(''/widgets'', widgets_item)] [] ''http://localhost:8080'' False backend_ok)"

definition get_widgets :: request where
  "get_widgets = \<lparr>Method = ''GET'', Path = ''/api/widgets''\<rparr>"

definition post_widgets :: request where
  "post_widgets = \<lparr>Method = ''POST'', Path = ''/api/widgets''\<rparr>"

definition fresh_world :: world where
  "fresh_world = \<lparr>client = empty_sink, reported = []\<rparr>"

text \<open>
  The same contract with a GET operation that has no \<open>responses\<close> object: its
  \<open>Responses\<close> pointer is nil.
\<close>

definition bare_op :: "string operation" where
  "bare_op = \<lparr>Responses = None\<rparr>"

definition bare_item :: "string path_item" where
  "bare_item = no_operations\<lparr>Get := Some bare_op\<rparr>"

definition bare_proxy :: "(bytes, string) Proxy" where
  "bare_proxy =
     fst (New ''/api'' [(''/widgets'', bare_item)] [] ''http://localhost:8080'' False backend_ok)"

section \<open>Properties\<close>

lemma Write_forwards:
  assumes "\<forall>cur p. snd (snd (buffer_Write io cur p)) = None"
  shows "fst (Write io p w) = fst (sink_Write io p (ResponseWriter w))"
    and "ResponseWriter (snd (Write io p w)) = snd (sink_Write io p (ResponseWriter w))"
proof -
  obtain buf n err where b: "buffer_Write io (body w) p = (buf, n, err)"
    by (cases "buffer_Write io (body w) p") auto
  with assms have "err = None"
    by (metis snd_conv)
  with b show "fst (Write io p w) = fst (sink_Write io p (ResponseWriter w))"
    and "ResponseWriter (snd (Write io p w)) = snd (sink_Write io p (ResponseWriter w))"
    by (simp_all add: Write_def sink_Write_def)
qed

lemma serve_recorder_forwards:
  assumes "\<forall>cur p. snd (snd (buffer_Write io cur p)) = None"
  shows "ResponseWriter (serve_recorder io prog w) = serve_sink io prog (ResponseWriter w)"
proof (induction prog arbitrary: w)
  case Return
  show ?case by simp
next
  case (CallHeaderSet key v k)
  then show ?case by simp
next
  case (CallWriteHeader st k)
  then show ?case by (simp add: WriteHeader_def)
next
  case (CallWrite p k)
  then show ?case
    by (simp add: Write_forwards [OF assms])
qed

lemma Status_Write: "Status (snd (Write io p w)) = Status w"
  by (simp add: Write_def Status_def sink_Write_def split: prod.splits option.splits)

lemma Status_serve_recorder:
  "Status (serve_recorder io prog w) = last_status (Status w) (WriteHeader_calls io prog w)"
proof (induction prog arbitrary: w)
  case Return
  show ?case by (simp add: last_status_def)
next
  case (CallHeaderSet key v k)
  then show ?case by (simp add: Status_def)
next
  case (CallWriteHeader st k)
  then show ?case by (simp add: last_status_def WriteHeader_def Status_def)
next
  case (CallWrite p k)
  then show ?case by (simp add: Status_Write)
qed

lemma match_Handler_Some:
  "match_Route (router_Match io r req) = Some route \<Longrightarrow>
     match_Handler (router_Match io r req) = Some new_handler"
  by (simp add: router_Match_def split: option.splits)

lemma Handler_matched:
  assumes "matched_operation io proxy req = Some op"
  shows "Handler io vs proxy next req wd =
     (let wr = serve_recorder io (next req) (new_WriterRecorder (client wd));
          wd1 = wd\<lparr>client := ResponseWriter wr\<rparr>
      in case Responses op of
           None \<Rightarrow> Inl Nil_pointer_dereference
         | Some rs \<Rightarrow>
             (case StatusCodeResponses rs (Status wr) of
                None \<Rightarrow>
                  Inr (report (Error req (Errorf (''Server Status '' @ fmt_d (Status wr)
                                                  @ '' not defined by the spec''))) wd1)
              | Some specResp \<Rightarrow>
                  (case Validate io vs proxy (Status wr) (sink_header (ResponseWriter wr))
                          (Body wr) specResp of
                     Some err \<Rightarrow> Inr (report (Error req err) wd1)
                   | None \<Rightarrow> Inr (report (Success req) wd1))))"
proof -
  from assms obtain route where r: "match_Route (router_Match io (router proxy) req) = Some route"
    and o: "routes proxy route = Some op"
    by (auto simp: matched_operation_def split: option.splits)
  from r have h: "match_Handler (router_Match io (router proxy) req) = Some new_handler"
    by (rule match_Handler_Some)
  show ?thesis
    by (simp add: Handler_def Let_def r o h)
qed

lemma Handler_unmatched:
  assumes "matched_operation io proxy req = None"
  shows "Handler io vs proxy next req wd = Inr (report (Warning req ''Route not defined on the Spec'') wd)"
  using assms
  by (auto simp: Handler_def Let_def matched_operation_def split: option.splits)


lemmas demo_defs = widgets_proxy_def New_def registerPaths_def register_operation_def
  getOperations_def widgets_item_def no_operations_def router_Handle_Methods_def NewRouter_def

lemma widgets_router:
  "router widgets_proxy =
     \<lparr>mux_routes = [\<lparr>route_path = ''/api/widgets'', route_methods = [''GET'']\<rparr>],
      NotFoundHandler = Some notFound_handler\<rparr>"
  by (simp add: demo_defs)

lemma widgets_routes: "routes widgets_proxy = [0 \<mapsto> get_op]"
  by (simp add: demo_defs)

lemma widgets_get: "matched_operation plain_io widgets_proxy get_widgets = Some get_op"
  by (simp add: matched_operation_def router_Match_def widgets_router widgets_routes
      route_matches_def plain_io_def get_widgets_def)

lemma widgets_post: "matched_operation plain_io widgets_proxy post_widgets = None"
  by (simp add: matched_operation_def router_Match_def widgets_router widgets_routes
      route_matches_def plain_io_def post_widgets_def)


lemma fmt_d_404: "fmt_d 404 = ''404''"
  by (simp add: fmt_d_def decimal.simps)

lemma fmt_d_0: "fmt_d 0 = ''0''"
  by (simp add: fmt_d_def decimal.simps)

lemma serve_recorder_body:
  assumes "buffer_Write io = go_buffer_Write"
  shows "written_bytes (ResponseWriter w) = pre @ body w \<Longrightarrow>
     written_bytes (ResponseWriter (serve_recorder io prog w)) = pre @ body (serve_recorder io prog w)"
proof (induction prog arbitrary: w)
  case Return
  then show ?case by simp
next
  case (CallHeaderSet key v k)
  then show ?case by (simp add: written_bytes_def sink_HeaderSet_def)
next
  case (CallWriteHeader st k)
  then show ?case by (simp add: written_bytes_def WriteHeader_def sink_WriteHeader_def)
next
  case (CallWrite p k)
  have "written_bytes (ResponseWriter (snd (Write io p w))) = pre @ body (snd (Write io p w))"
    using CallWrite.prems
    by (simp add: Write_def assms go_buffer_Write_def sink_Write_def written_bytes_def)
  then show ?case
    using CallWrite.IH by simp
qed

lemma Body_is_written:
  assumes "buffer_Write io = go_buffer_Write"
  shows "written_bytes (ResponseWriter (serve_recorder io prog (new_WriterRecorder s)))
     = written_bytes s @ Body (serve_recorder io prog (new_WriterRecorder s))"
  unfolding Body_def
  by (rule serve_recorder_body [OF assms]) (simp add: new_WriterRecorder_def)

text \<open>
  Pass-through where the handler returns. The recorder passes every \<open>WriteHeader\<close> call
  on to the real sink, and every \<open>Write\<close> whose buffer append succeeds (Go's
  \<open>bytes.Buffer.Write\<close> never returns an error). For a request matched to an operation
  whose \<open>Responses\<close> pointer is not nil, what the caller's sink receives from
  \<open>Handler(next)\<close> is what it would receive from \<open>next\<close> alone, for every contract and
  every outcome of the checkers \<open>vs\<close>; with Go's buffer, the body the recorder hands to
  \<open>Validate\<close> is a copy of the bytes the sink was written during the request.
\<close>

lemma pass_through_with_Responses:
  assumes "\<forall>cur p. snd (snd (buffer_Write io cur p)) = None"
    and "matched_operation io proxy req = Some op"
    and "Responses op = Some rs"
  shows "(\<forall>st w. ResponseWriter (WriteHeader st w) = sink_WriteHeader st (ResponseWriter w))
    \<and> (\<forall>p w. fst (Write io p w) = fst (sink_Write io p (ResponseWriter w))
           \<and> ResponseWriter (snd (Write io p w)) = snd (sink_Write io p (ResponseWriter w)))
    \<and> (\<exists>wd' n. Handler io vs proxy next req wd = Inr wd'
           \<and> client wd' = serve_sink io (next req) (client wd)
           \<and> reported wd' = reported wd @ [n])
    \<and> (buffer_Write io = go_buffer_Write \<longrightarrow>
          written_bytes (serve_sink io (next req) (client wd))
            = written_bytes (client wd)
              @ Body (serve_recorder io (next req) (new_WriterRecorder (client wd))))"
proof -
  have a: "\<forall>st w. ResponseWriter (WriteHeader st w) = sink_WriteHeader st (ResponseWriter w)"
    by (simp add: WriteHeader_def)
  have b: "\<forall>p w. fst (Write io p w) = fst (sink_Write io p (ResponseWriter w))
           \<and> ResponseWriter (snd (Write io p w)) = snd (sink_Write io p (ResponseWriter w))"
    by (simp add: Write_forwards [OF assms(1)])
  have fw: "ResponseWriter (serve_recorder io (next req) (new_WriterRecorder (client wd)))
      = serve_sink io (next req) (client wd)"
    by (simp add: serve_recorder_forwards [OF assms(1)] new_WriterRecorder_def)
  have c: "\<exists>wd' n. Handler io vs proxy next req wd = Inr wd'
           \<and> client wd' = serve_sink io (next req) (client wd)
           \<and> reported wd' = reported wd @ [n]"
    by (simp add: Handler_matched [OF assms(2)] assms(3) Let_def fw report_def
        split: option.splits)
  have d: "written_bytes (serve_sink io (next req) (client wd))
            = written_bytes (client wd)
              @ Body (serve_recorder io (next req) (new_WriterRecorder (client wd)))"
    if "buffer_Write io = go_buffer_Write"
    using Body_is_written [OF that, of "next req" "client wd"] by (simp add: fw)
  from a b c d show ?thesis by blast
qed

lemma pass_through_example:
  "(\<forall>cur p. snd (snd (buffer_Write plain_io cur p)) = None)
   \<and> buffer_Write plain_io = go_buffer_Write
   \<and> matched_operation plain_io widgets_proxy get_widgets = Some get_op
   \<and> Responses get_op = Some get_responses
   \<and> (\<exists>wd' n. Handler plain_io toy_checkers widgets_proxy backend_ok get_widgets fresh_world = Inr wd'
         \<and> client wd' = serve_sink plain_io (backend_ok get_widgets) (client fresh_world)
         \<and> reported wd' = reported fresh_world @ [n])
   \<and> serve_sink plain_io (backend_ok get_widgets) (client fresh_world)
       = \<lparr>sink_header = [''X-Rate-Limit'' \<mapsto> [''10'']],
          sink_calls = [SinkWriteHeader 200, SinkWrite [0x7B, 0x7D]]\<rparr>
   \<and> Body (serve_recorder plain_io (backend_ok get_widgets) (new_WriterRecorder (client fresh_world)))
       = [0x7B, 0x7D]"
proof -
  have h0: "buffer_Write plain_io = go_buffer_Write"
    by (simp add: plain_io_def)
  have h1: "\<forall>cur p. snd (snd (buffer_Write plain_io cur p)) = None"
    by (simp add: h0 go_buffer_Write_def)
  have h3: "Responses get_op = Some get_responses"
    by (simp add: get_op_def)
  have v: "serve_sink plain_io (backend_ok get_widgets) (client fresh_world)
       = \<lparr>sink_header = [''X-Rate-Limit'' \<mapsto> [''10'']],
          sink_calls = [SinkWriteHeader 200, SinkWrite [0x7B, 0x7D]]\<rparr>"
    by (simp add: backend_ok_def fresh_world_def empty_sink_def sink_HeaderSet_def header_Set_def
        sink_WriteHeader_def sink_Write_def plain_io_def)
  have w0: "written_bytes (client fresh_world) = []"
    by (simp add: written_bytes_def fresh_world_def empty_sink_def)
  have wv: "written_bytes (serve_sink plain_io (backend_ok get_widgets) (client fresh_world)) = [0x7B, 0x7D]"
    by (simp only: v) (simp add: written_bytes_def)
  note t = pass_through_with_Responses [OF h1 widgets_get h3, of toy_checkers backend_ok fresh_world]
  from t h0 have "written_bytes (serve_sink plain_io (backend_ok get_widgets) (client fresh_world))
      = written_bytes (client fresh_world)
        @ Body (serve_recorder plain_io (backend_ok get_widgets) (new_WriterRecorder (client fresh_world)))"
    by blast
  then have bd: "Body (serve_recorder plain_io (backend_ok get_widgets) (new_WriterRecorder (client fresh_world)))
       = [0x7B, 0x7D]"
    by (simp add: wv w0)
  from t have "\<exists>wd' n. Handler plain_io toy_checkers widgets_proxy backend_ok get_widgets fresh_world = Inr wd'
         \<and> client wd' = serve_sink plain_io (backend_ok get_widgets) (client fresh_world)
         \<and> reported wd' = reported fresh_world @ [n]"
    by blast
  with h0 h1 h3 widgets_get v bd show ?thesis by blast
qed

text \<open>
  An undeclared status where the handler returns. When the request is matched, the
  operation's \<open>Responses\<close> pointer is not nil, and the status the recorder holds has no
  entry in \<open>StatusCodeResponses\<close>, the handler reports one \<open>Error\<close>, "Server Status ...
  not defined by the spec", and nothing else, whatever the checkers \<open>vs\<close> are.
\<close>

lemma status_not_defined_with_Responses:
  assumes "matched_operation io proxy req = Some op"
    and "Responses op = Some rs"
    and "wr = serve_recorder io (next req) (new_WriterRecorder (client wd))"
    and "StatusCodeResponses rs (Status wr) = None"
  shows "Handler io vs proxy next req wd =
     Inr \<lparr>client = ResponseWriter wr,
          reported = reported wd @ [Error req (Errorf (''Server Status '' @ fmt_d (Status wr)
                                                       @ '' not defined by the spec''))]\<rparr>"
  using assms(2-4)
  by (simp add: Handler_matched [OF assms(1)] Let_def report_def)

lemma status_not_defined_example:
  "matched_operation plain_io widgets_proxy get_widgets = Some get_op
   \<and> Responses get_op = Some get_responses
   \<and> StatusCodeResponses get_responses
        (Status (serve_recorder plain_io (backend_404 get_widgets) (new_WriterRecorder (client fresh_world))))
       = None
   \<and> Handler plain_io toy_checkers widgets_proxy backend_404 get_widgets fresh_world =
       Inr \<lparr>client = \<lparr>sink_header = Map.empty,
                       sink_calls = [SinkWriteHeader 404, SinkWrite [0x7B, 0x7D]]\<rparr>,
            reported = [Error get_widgets (Errorf ''Server Status 404 not defined by the spec'')]\<rparr>"
proof -
  have h2: "Responses get_op = Some get_responses"
    by (simp add: get_op_def)
  have wr: "serve_recorder plain_io (backend_404 get_widgets) (new_WriterRecorder (client fresh_world))
     = \<lparr>ResponseWriter = \<lparr>sink_header = Map.empty,
                            sink_calls = [SinkWriteHeader 404, SinkWrite [0x7B, 0x7D]]\<rparr>,
        status = 404, body = [0x7B, 0x7D]\<rparr>"
    by (simp add: backend_404_def fresh_world_def empty_sink_def new_WriterRecorder_def
        WriteHeader_def Write_def sink_WriteHeader_def sink_Write_def plain_io_def go_buffer_Write_def)
  have h4: "StatusCodeResponses get_responses
        (Status (serve_recorder plain_io (backend_404 get_widgets) (new_WriterRecorder (client fresh_world))))
       = None"
    by (simp add: wr Status_def get_responses_def)
  have "Handler plain_io toy_checkers widgets_proxy backend_404 get_widgets fresh_world =
       Inr \<lparr>client = \<lparr>sink_header = Map.empty,
                       sink_calls = [SinkWriteHeader 404, SinkWrite [0x7B, 0x7D]]\<rparr>,
            reported = [Error get_widgets (Errorf ''Server Status 404 not defined by the spec'')]\<rparr>"
    using status_not_defined_with_Responses [of plain_io widgets_proxy get_widgets get_op get_responses _
      backend_404 fresh_world toy_checkers, OF widgets_get h2 refl h4]
    by (simp only: wr) (simp add: Status_def fmt_d_404 fresh_world_def)
  with h2 h4 widgets_get show ?thesis by blast
qed

text \<open>
  Claim C8. \<open>WriterRecorder.Write\<close> writes to the buffer first. If the buffer's write
  returns an error, \<open>Write\<close> returns the buffer's count and error and the wrapped sink is
  left as it was: its \<open>Write\<close> is not called. If the buffer's write succeeds, the same
  bytes are written to the wrapped sink, whose result is returned, and the buffer holds
  what the append left.
\<close>

theorem Write_buffer_first:
  "(\<forall>buf n err. buffer_Write io (body w) p = (buf, n, Some err) \<longrightarrow>
      fst (Write io p w) = (n, Some err)
      \<and> ResponseWriter (snd (Write io p w)) = ResponseWriter w)
   \<and> (\<forall>buf n. buffer_Write io (body w) p = (buf, n, None) \<longrightarrow>
      fst (Write io p w) = sink_Write_result io (ResponseWriter w) p
      \<and> body (snd (Write io p w)) = buf
      \<and> ResponseWriter (snd (Write io p w)) = snd (sink_Write io p (ResponseWriter w)))"
  by (simp add: Write_def sink_Write_def)

theorem Write_buffer_first_witness:
  "buffer_Write capped_io (body (new_WriterRecorder empty_sink)) [1, 2, 3]
     = ([], 0, Some (LibError ''bytes.Buffer: too large''))
   \<and> fst (Write capped_io [1, 2, 3] (new_WriterRecorder empty_sink))
       = (0, Some (LibError ''bytes.Buffer: too large''))
   \<and> ResponseWriter (snd (Write capped_io [1, 2, 3] (new_WriterRecorder empty_sink))) = empty_sink
   \<and> buffer_Write capped_io (body (new_WriterRecorder empty_sink)) [7] = ([7], 1, None)
   \<and> fst (Write capped_io [7] (new_WriterRecorder empty_sink)) = (1, None)
   \<and> body (snd (Write capped_io [7] (new_WriterRecorder empty_sink))) = [7]
   \<and> sink_calls (ResponseWriter (snd (Write capped_io [7] (new_WriterRecorder empty_sink))))
       = [SinkWrite [7]]"
  using Write_buffer_first [of capped_io "new_WriterRecorder empty_sink" "[1, 2, 3]"]
    Write_buffer_first [of capped_io "new_WriterRecorder empty_sink" "[7]"]
  by (simp add: capped_io_def plain_io_def capped_buffer_Write_def new_WriterRecorder_def
      empty_sink_def sink_Write_def)

text \<open>
  Claim C10. A new recorder has status 0, \<open>WriteHeader\<close> sets the status to its
  argument and \<open>Write\<close> leaves it alone; so after a backend handler has run on a new
  recorder, \<open>Status()\<close> is the argument of the handler's last \<open>WriteHeader\<close> call, and 0
  if it made none. A handler that makes none is therefore looked up under status 0: with
  no response declared for 0, the dispatch reports "Server Status 0 not defined by the
  spec", whatever it wrote.
\<close>

theorem Status_last_WriteHeader:
  "Status (new_WriterRecorder s) = 0
   \<and> Status (WriteHeader st w) = st
   \<and> Status (snd (Write io p w)) = Status w
   \<and> Status (serve_recorder io prog (new_WriterRecorder s))
       = (if WriteHeader_calls io prog (new_WriterRecorder s) = [] then 0
          else last (WriteHeader_calls io prog (new_WriterRecorder s)))
   \<and> (matched_operation io proxy req = Some op \<and> Responses op = Some rs
        \<and> WriteHeader_calls io (next req) (new_WriterRecorder (client wd)) = []
        \<and> StatusCodeResponses rs 0 = None \<longrightarrow>
      Handler io vs proxy next req wd =
        Inr \<lparr>client = ResponseWriter (serve_recorder io (next req) (new_WriterRecorder (client wd))),
             reported = reported wd @ [Error req (Errorf ''Server Status 0 not defined by the spec'')]\<rparr>)"
proof -
  have z: "Status (new_WriterRecorder s) = 0" for s
    by (simp add: new_WriterRecorder_def Status_def)
  have a: "Status (WriteHeader st w) = st"
    by (simp add: WriteHeader_def Status_def)
  have c: "Status (serve_recorder io prog (new_WriterRecorder s))
       = (if WriteHeader_calls io prog (new_WriterRecorder s) = [] then 0
          else last (WriteHeader_calls io prog (new_WriterRecorder s)))" for prog s
    by (simp add: Status_serve_recorder last_status_def z)
  have d: "Handler io vs proxy next req wd =
        Inr \<lparr>client = ResponseWriter (serve_recorder io (next req) (new_WriterRecorder (client wd))),
             reported = reported wd @ [Error req (Errorf ''Server Status 0 not defined by the spec'')]\<rparr>"
    if m: "matched_operation io proxy req = Some op" and r: "Responses op = Some rs"
      and n: "WriteHeader_calls io (next req) (new_WriterRecorder (client wd)) = []"
      and u: "StatusCodeResponses rs 0 = None"
  proof -
    have "Status (serve_recorder io (next req) (new_WriterRecorder (client wd))) = 0"
      by (simp add: c n)
    then show ?thesis
      by (simp add: Handler_matched [OF m] r u Let_def report_def fmt_d_0)
  qed
  from z a c d Status_Write show ?thesis by blast
qed

theorem Status_last_WriteHeader_witness:
  "Status (new_WriterRecorder empty_sink) = 0
   \<and> Status (WriteHeader 201 (WriteHeader 500 (new_WriterRecorder empty_sink))) = 201
   \<and> WriteHeader_calls plain_io (backend_body_only get_widgets) (new_WriterRecorder (client fresh_world)) = []
   \<and> matched_operation plain_io widgets_proxy get_widgets = Some get_op
   \<and> Responses get_op = Some get_responses
   \<and> StatusCodeResponses get_responses 0 = None
   \<and> Handler plain_io toy_checkers widgets_proxy backend_body_only get_widgets fresh_world =
        Inr \<lparr>client = \<lparr>sink_header = Map.empty, sink_calls = [SinkWrite [0x7B, 0x7D]]\<rparr>,
             reported = [Error get_widgets (Errorf ''Server Status 0 not defined by the spec'')]\<rparr>"
proof -
  have h2: "Responses get_op = Some get_responses"
    by (simp add: get_op_def)
  have h3: "WriteHeader_calls plain_io (backend_body_only get_widgets) (new_WriterRecorder (client fresh_world)) = []"
    by (simp add: backend_body_only_def)
  have h4: "StatusCodeResponses get_responses 0 = None"
    by (simp add: get_responses_def)
  have wr: "serve_recorder plain_io (backend_body_only get_widgets) (new_WriterRecorder (client fresh_world))
     = \<lparr>ResponseWriter = \<lparr>sink_header = Map.empty, sink_calls = [SinkWrite [0x7B, 0x7D]]\<rparr>,
        status = 0, body = [0x7B, 0x7D]\<rparr>"
    by (simp add: backend_body_only_def fresh_world_def empty_sink_def new_WriterRecorder_def
        Write_def sink_Write_def plain_io_def go_buffer_Write_def)
  have "Handler plain_io toy_checkers widgets_proxy backend_body_only get_widgets fresh_world =
        Inr \<lparr>client = \<lparr>sink_header = Map.empty, sink_calls = [SinkWrite [0x7B, 0x7D]]\<rparr>,
             reported = [Error get_widgets (Errorf ''Server Status 0 not defined by the spec'')]\<rparr>"
    using Status_last_WriteHeader [of empty_sink 201 "WriteHeader 500 (new_WriterRecorder empty_sink)"
        plain_io "[]" Return widgets_proxy get_widgets get_op get_responses
        backend_body_only fresh_world toy_checkers]
      widgets_get h2 h3 h4
    by (simp only: wr) (simp add: fresh_world_def)
  moreover have "Status (new_WriterRecorder empty_sink) = 0"
    by (simp add: new_WriterRecorder_def Status_def)
  moreover have "Status (WriteHeader 201 (WriteHeader 500 (new_WriterRecorder empty_sink))) = 201"
    by (simp add: WriteHeader_def Status_def)
  ultimately show ?thesis using h2 h3 h4 widgets_get by blast
qed

lemma check_headers_violations:
  "check_headers io vs header hs errs = errs @ header_violations io vs header hs"
  by (induction hs arbitrary: errs)
    (auto simp: header_violations_def List.map_filter_simps split: option.splits)

lemma Validate_parsed:
  assumes "json_Unmarshal vs bdy = Inr data"
  shows "Validate io vs proxy st header bdy resp =
     (if header_violations io vs header (Headers resp) @ schema_violations vs proxy (Schema resp) data = []
      then None
      else Some (CompositeValidationError
             (header_violations io vs header (Headers resp)
              @ schema_violations vs proxy (Schema resp) data)))"
  using assms
  by (simp add: Validate_def Let_def check_headers_violations schema_violations_def
      split: option.splits)

text \<open>
  Claim C3. When the body parses, \<open>Validate\<close> returns nil exactly when no header
  contract and no schema check yields a violation; otherwise it returns one
  \<open>CompositeValidationError\<close> that carries all of them, the header violations (one per
  failing header contract, in the order of the iteration) before the schema's. With two
  header contracts, the first header missing and the second present but rejected by the
  \<open>int32\<close> parser, and no schema violation, the composite error has exactly two
  entries, in whichever order the map is ranged over.
\<close>

theorem Validate_aggregates:
  assumes "json_Unmarshal vs bdy = Inr data"
  shows "(Validate io vs proxy st header bdy resp = None \<longleftrightarrow>
            header_violations io vs header (Headers resp) = []
            \<and> schema_violations vs proxy (Schema resp) data = [])
    \<and> (Validate io vs proxy st header bdy resp \<noteq> None \<longrightarrow>
          Validate io vs proxy st header bdy resp =
            Some (CompositeValidationError
                   (header_violations io vs header (Headers resp)
                    @ schema_violations vs proxy (Schema resp) data)))
    \<and> ((Headers resp = [(k1, h1), (k2, h2)] \<or> Headers resp = [(k2, h2), (k1, h1)])
        \<and> header_Get io header k1 = []
        \<and> header_Get io header k2 \<noteq> [] \<and> Format h2 = ''int32''
        \<and> swag_ConvertInt32 vs (header_Get io header k2) = Some e2
        \<and> schema_violations vs proxy (Schema resp) data = [] \<longrightarrow>
          (\<exists>errs. Validate io vs proxy st header bdy resp = Some (CompositeValidationError errs)
             \<and> length errs = 2
             \<and> set errs = {Errorf (k1 @ '' in headers is missing''), e2}))"
proof -
  note v = Validate_parsed [OF assms, of io proxy st header resp]
  have a: "Validate io vs proxy st header bdy resp = None \<longleftrightarrow>
            header_violations io vs header (Headers resp) = []
            \<and> schema_violations vs proxy (Schema resp) data = []"
    by (simp add: v)
  have b: "Validate io vs proxy st header bdy resp \<noteq> None \<longrightarrow>
          Validate io vs proxy st header bdy resp =
            Some (CompositeValidationError
                   (header_violations io vs header (Headers resp)
                    @ schema_violations vs proxy (Schema resp) data))"
    by (simp add: v)
  have c: "\<exists>errs. Validate io vs proxy st header bdy resp = Some (CompositeValidationError errs)
             \<and> length errs = 2
             \<and> set errs = {Errorf (k1 @ '' in headers is missing''), e2}"
    if hs: "Headers resp = [(k1, h1), (k2, h2)] \<or> Headers resp = [(k2, h2), (k1, h1)]"
      and m: "header_Get io header k1 = []"
      and p: "header_Get io header k2 \<noteq> []" and f: "Format h2 = ''int32''"
      and e: "swag_ConvertInt32 vs (header_Get io header k2) = Some e2"
      and s: "schema_violations vs proxy (Schema resp) data = []"
  proof -
    have v1: "validateHeaderValue vs k1 (header_Get io header k1) h1
        = Some (Errorf (k1 @ '' in headers is missing''))"
      by (simp add: validateHeaderValue_def m)
    have v2: "validateHeaderValue vs k2 (header_Get io header k2) h2 = Some e2"
      by (simp add: validateHeaderValue_def p f e)
    from hs show ?thesis
    proof
      assume "Headers resp = [(k1, h1), (k2, h2)]"
      then have "header_violations io vs header (Headers resp)
          = [Errorf (k1 @ '' in headers is missing''), e2]"
        by (simp add: header_violations_def List.map_filter_simps v1 v2)
      then show ?thesis by (simp add: v s)
    next
      assume "Headers resp = [(k2, h2), (k1, h1)]"
      then have "header_violations io vs header (Headers resp)
          = [e2, Errorf (k1 @ '' in headers is missing'')]"
        by (simp add: header_violations_def List.map_filter_simps v1 v2)
      then show ?thesis by (auto simp: v s)
    qed
  qed
  from a b c show ?thesis by blast
qed

theorem Validate_aggregates_witness:
  "json_Unmarshal toy_checkers [0x7B, 0x7D] = Inr [0x7B, 0x7D]
   \<and> Headers resp_200 = [(''X-Rate-Limit'', \<lparr>Format = ''int32''\<rparr>), (''X-Expires'', \<lparr>Format = ''date-time''\<rparr>)]
   \<and> header_Get plain_io [''X-Rate-Limit'' \<mapsto> [''ten'']] ''X-Expires'' = []
   \<and> header_Get plain_io [''X-Rate-Limit'' \<mapsto> [''ten'']] ''X-Rate-Limit'' = ''ten''
   \<and> swag_ConvertInt32 toy_checkers ''ten'' = Some (LibError ''strconv.ParseInt: invalid syntax'')
   \<and> schema_violations toy_checkers widgets_proxy (Schema resp_200) [0x7B, 0x7D] = []
   \<and> Validate plain_io toy_checkers widgets_proxy 200 [''X-Rate-Limit'' \<mapsto> [''ten'']] [0x7B, 0x7D] resp_200
       = Some (CompositeValidationError
                [LibError ''strconv.ParseInt: invalid syntax'', Errorf ''X-Expires in headers is missing''])
   \<and> Validate plain_io toy_checkers widgets_proxy 200
         [''X-Rate-Limit'' \<mapsto> [''10''], ''X-Expires'' \<mapsto> [''2017-06-01T12:00:00Z'']] [0x7B, 0x7D] resp_200
       = None"
proof -
  have p: "json_Unmarshal toy_checkers [0x7B, 0x7D] = Inr [0x7B, 0x7D]"
    by (simp add: toy_checkers_def)
  have hv: "header_violations plain_io toy_checkers [''X-Rate-Limit'' \<mapsto> [''ten'']] (Headers resp_200)
      = [LibError ''strconv.ParseInt: invalid syntax'', Errorf ''X-Expires in headers is missing'']"
    by (simp add: header_violations_def List.map_filter_simps resp_200_def validateHeaderValue_def
        header_Get_def plain_io_def toy_checkers_def)
  have hv0: "header_violations plain_io toy_checkers
        [''X-Rate-Limit'' \<mapsto> [''10''], ''X-Expires'' \<mapsto> [''2017-06-01T12:00:00Z'']] (Headers resp_200)
      = []"
    by (simp add: header_violations_def List.map_filter_simps resp_200_def validateHeaderValue_def
        header_Get_def plain_io_def toy_checkers_def)
  have sv: "schema_violations toy_checkers widgets_proxy (Schema resp_200) [0x7B, 0x7D] = []"
    by (simp add: schema_violations_def resp_200_def toy_checkers_def)
  have "Validate plain_io toy_checkers widgets_proxy 200 [''X-Rate-Limit'' \<mapsto> [''ten'']] [0x7B, 0x7D] resp_200
       = Some (CompositeValidationError
                [LibError ''strconv.ParseInt: invalid syntax'', Errorf ''X-Expires in headers is missing''])"
    using Validate_aggregates [OF p, of plain_io widgets_proxy 200 "[''X-Rate-Limit'' \<mapsto> [''ten'']]" resp_200]
    by (simp add: hv sv)
  moreover have "Validate plain_io toy_checkers widgets_proxy 200
         [''X-Rate-Limit'' \<mapsto> [''10''], ''X-Expires'' \<mapsto> [''2017-06-01T12:00:00Z'']] [0x7B, 0x7D] resp_200
       = None"
    using Validate_aggregates [OF p, of plain_io widgets_proxy 200
        "[''X-Rate-Limit'' \<mapsto> [''10''], ''X-Expires'' \<mapsto> [''2017-06-01T12:00:00Z'']]" resp_200]
    by (simp add: hv0 sv)
  moreover have "header_Get plain_io [''X-Rate-Limit'' \<mapsto> [''ten'']] ''X-Expires'' = []"
    and "header_Get plain_io [''X-Rate-Limit'' \<mapsto> [''ten'']] ''X-Rate-Limit'' = ''ten''"
    by (simp_all add: header_Get_def plain_io_def)
  moreover have "swag_ConvertInt32 toy_checkers ''ten'' = Some (LibError ''strconv.ParseInt: invalid syntax'')"
    by (simp add: toy_checkers_def)
  moreover have "Headers resp_200 = [(''X-Rate-Limit'', \<lparr>Format = ''int32''\<rparr>), (''X-Expires'', \<lparr>Format = ''date-time''\<rparr>)]"
    by (simp add: resp_200_def)
  ultimately show ?thesis using p sv by blast
qed

text \<open>
  Claim C4. When \<open>json.Unmarshal\<close> rejects the body, \<open>Validate\<close> returns that error and
  nothing else: the result is the same for any headers, any response contract, and any
  header parsers and schema validator, so none of them is consulted.
\<close>

theorem Validate_parse_failure:
  assumes "json_Unmarshal vs bdy = Inl err"
  shows "Validate io vs proxy st header bdy resp = Some err
    \<and> Validate io' (vs\<lparr>swag_ConvertInt32 := c, strfmt_ParseDateTime := d, schema_Validate := v\<rparr>)
          proxy' st' header' bdy resp' = Some err"
  using assms by (simp add: Validate_def)

theorem Validate_parse_failure_witness:
  "json_Unmarshal toy_checkers [0x7B] = Inl (LibError ''invalid character'')
   \<and> Validate plain_io toy_checkers widgets_proxy 200
        [''X-Rate-Limit'' \<mapsto> [''10''], ''X-Expires'' \<mapsto> [''2017-06-01T12:00:00Z'']] [0x7B] resp_200
       = Some (LibError ''invalid character'')
   \<and> Validate plain_io
        (toy_checkers\<lparr>swag_ConvertInt32 := (\<lambda>v. Some (LibError ''rejected'')),
                       strfmt_ParseDateTime := (\<lambda>v. Some (LibError ''rejected'')),
                       schema_Validate := (\<lambda>schema d data. [LibError ''rejected''])\<rparr>)
        widgets_proxy 200 Map.empty [0x7B] resp_200
       = Some (LibError ''invalid character'')"
proof -
  have p: "json_Unmarshal toy_checkers [0x7B] = Inl (LibError ''invalid character'')"
    by (simp add: toy_checkers_def)
  from Validate_parse_failure [OF p] p show ?thesis
    by blast
qed



text \<open>
  Claim C9. \<open>json.Unmarshal\<close> of Go's \<open>encoding/json\<close> rejects the empty input ("unexpected
  end of JSON input"); that fact about the library is the hypothesis. Then \<open>Validate\<close>
  of an empty body is that error for every response contract, also for one without
  header contracts and without a schema, and a matched request whose backend wrote no
  body under a declared status is reported as \<open>Error\<close>, never as \<open>Success\<close>.
\<close>

theorem Validate_empty_body:
  assumes "json_Unmarshal vs [] = Inl err"
  shows "Validate io vs proxy st header [] resp = Some err
    \<and> Validate io vs proxy st header [] \<lparr>Headers = [], Schema = None\<rparr> \<noteq> None
    \<and> (matched_operation io proxy req = Some op \<and> Responses op = Some rs
        \<and> wr = serve_recorder io (next req) (new_WriterRecorder (client wd))
        \<and> Body wr = [] \<and> StatusCodeResponses rs (Status wr) = Some declared_resp \<longrightarrow>
        Handler io vs proxy next req wd =
          Inr \<lparr>client = ResponseWriter wr, reported = reported wd @ [Error req err]\<rparr>)"
proof -
  have a: "Validate io vs proxy st header [] resp = Some err" for io proxy st header resp
    using assms by (simp add: Validate_def)
  have b: "Handler io vs proxy next req wd =
          Inr \<lparr>client = ResponseWriter wr, reported = reported wd @ [Error req err]\<rparr>"
    if m: "matched_operation io proxy req = Some op" and r: "Responses op = Some rs"
      and w: "wr = serve_recorder io (next req) (new_WriterRecorder (client wd))"
      and e: "Body wr = []" and s: "StatusCodeResponses rs (Status wr) = Some declared_resp"
    using r e s a unfolding w
    by (simp add: Handler_matched [OF m] Let_def report_def)
  have c: "matched_operation io proxy req = Some op \<and> Responses op = Some rs
        \<and> wr = serve_recorder io (next req) (new_WriterRecorder (client wd))
        \<and> Body wr = [] \<and> StatusCodeResponses rs (Status wr) = Some declared_resp \<longrightarrow>
        Handler io vs proxy next req wd =
          Inr \<lparr>client = ResponseWriter wr, reported = reported wd @ [Error req err]\<rparr>"
    using b by blast
  show ?thesis
    using c by (simp only: a) simp
qed

theorem Validate_empty_body_witness:
  "json_Unmarshal toy_checkers [] = Inl (LibError ''unexpected end of JSON input'')
   \<and> Validate plain_io toy_checkers widgets_proxy 204 Map.empty [] resp_204
       = Some (LibError ''unexpected end of JSON input'')
   \<and> matched_operation plain_io widgets_proxy get_widgets = Some get_op
   \<and> Responses get_op = Some get_responses
   \<and> Body (serve_recorder plain_io (backend_204 get_widgets) (new_WriterRecorder (client fresh_world))) = []
   \<and> StatusCodeResponses get_responses
        (Status (serve_recorder plain_io (backend_204 get_widgets) (new_WriterRecorder (client fresh_world))))
       = Some resp_204
   \<and> Handler plain_io toy_checkers widgets_proxy backend_204 get_widgets fresh_world =
       Inr \<lparr>client = \<lparr>sink_header = Map.empty, sink_calls = [SinkWriteHeader 204]\<rparr>,
            reported = [Error get_widgets (LibError ''unexpected end of JSON input'')]\<rparr>"
proof -
  have p: "json_Unmarshal toy_checkers [] = Inl (LibError ''unexpected end of JSON input'')"
    by (simp add: toy_checkers_def)
  have h2: "Responses get_op = Some get_responses"
    by (simp add: get_op_def)
  have wr: "serve_recorder plain_io (backend_204 get_widgets) (new_WriterRecorder (client fresh_world))
     = \<lparr>ResponseWriter = \<lparr>sink_header = Map.empty, sink_calls = [SinkWriteHeader 204]\<rparr>,
        status = 204, body = []\<rparr>"
    by (simp add: backend_204_def fresh_world_def empty_sink_def new_WriterRecorder_def
        WriteHeader_def sink_WriteHeader_def)
  have h4: "Body (serve_recorder plain_io (backend_204 get_widgets) (new_WriterRecorder (client fresh_world))) = []"
    by (simp add: wr Body_def)
  have h5: "StatusCodeResponses get_responses
        (Status (serve_recorder plain_io (backend_204 get_widgets) (new_WriterRecorder (client fresh_world))))
       = Some resp_204"
    by (simp add: wr Status_def get_responses_def)
  note t = Validate_empty_body [OF p, of plain_io widgets_proxy 204 Map.empty resp_204 get_widgets
      get_op get_responses _ backend_204 fresh_world resp_204]
  have "Handler plain_io toy_checkers widgets_proxy backend_204 get_widgets fresh_world =
       Inr \<lparr>client = \<lparr>sink_header = Map.empty, sink_calls = [SinkWriteHeader 204]\<rparr>,
            reported = [Error get_widgets (LibError ''unexpected end of JSON input'')]\<rparr>"
    using t widgets_get h2 h4 h5
    by (simp only: wr) (simp add: fresh_world_def)
  moreover have "Validate plain_io toy_checkers widgets_proxy 204 Map.empty [] resp_204
       = Some (LibError ''unexpected end of JSON input'')"
    using t by simp
  ultimately show ?thesis using p widgets_get h2 h4 h5 by blast
qed

lemma getOperations_eq_first_declared: "getOperations props = first_declared props"
  by (simp add: getOperations_def first_declared_def method_precedence_def declared_def
      split: option.splits)

lemma length_first_declared: "length (first_declared props) \<le> 1"
  by (simp add: first_declared_def split: option.splits)

lemma first_declared_Nil:
  "first_declared props = [] \<longleftrightarrow> (\<forall>m \<in> set method_precedence. declared props m = None)"
proof (cases "find (\<lambda>m. declared props m \<noteq> None) method_precedence")
  case None
  have 1: "first_declared props = []"
    unfolding first_declared_def None by simp
  from None have 2: "\<forall>m \<in> set method_precedence. declared props m = None"
    unfolding find_None_iff by blast
  from 1 2 show ?thesis by simp
next
  case (Some m)
  then obtain i where "i < length method_precedence" and d: "declared props (method_precedence ! i) \<noteq> None"
    and m: "m = method_precedence ! i"
    unfolding find_Some_iff by blast
  then have 1: "m \<in> set method_precedence" and 2: "declared props m \<noteq> None"
    by simp_all
  from 2 have "first_declared props \<noteq> []"
    unfolding first_declared_def Some by auto
  with 1 2 show ?thesis by auto
qed

lemma route_table_register_operation:
  "route_table (fst (register_operation newPath (m, op) (proxy, logged)))
     = route_table proxy @ [(\<lparr>route_path = newPath, route_methods = [m]\<rparr>, Some op)]"
  by (simp add: route_table_def register_operation_def router_Handle_Methods_def nth_append)

lemma route_table_fold_register:
  "route_table (fst (fold (register_operation newPath) ops (proxy, logged)))
     = route_table proxy
       @ map (\<lambda>(m, op). (\<lparr>route_path = newPath, route_methods = [m]\<rparr>, Some op)) ops"
proof (induction ops arbitrary: proxy logged)
  case Nil
  show ?case by simp
next
  case (Cons mo ops)
  obtain m op where mo: "mo = (m, op)" by (cases mo)
  obtain proxy' logged' where r: "register_operation newPath (m, op) (proxy, logged) = (proxy', logged')"
    by (cases "register_operation newPath (m, op) (proxy, logged)")
  from route_table_register_operation [of newPath m op proxy logged] r
  have t: "route_table proxy' = route_table proxy @ [(\<lparr>route_path = newPath, route_methods = [m]\<rparr>, Some op)]"
    by simp
  show ?case
    by (simp add: mo r Cons.IH t)
qed

lemma route_table_registerPaths:
  "route_table (fst (registerPaths base paths (proxy, logged)))
     = route_table proxy @ selected_routes base paths"
proof (induction paths arbitrary: proxy logged)
  case Nil
  show ?case by (simp add: registerPaths_def selected_routes_def)
next
  case (Cons pi paths)
  obtain path item where pi: "pi = (path, item)" by (cases pi)
  obtain proxy' logged' where
    r: "fold (register_operation (base @ path)) (getOperations item) (proxy, logged) = (proxy', logged')"
    by (cases "fold (register_operation (base @ path)) (getOperations item) (proxy, logged)")
  from route_table_fold_register [of "base @ path" "getOperations item" proxy logged] r
  have t: "route_table proxy' = route_table proxy
      @ map (\<lambda>(m, op). (\<lparr>route_path = base @ path, route_methods = [m]\<rparr>, Some op)) (first_declared item)"
    by (simp add: getOperations_eq_first_declared)
  have "registerPaths base (pi # paths) (proxy, logged) = registerPaths base paths (proxy', logged')"
    by (simp add: registerPaths_def pi r)
  then show ?case
    using Cons.IH [of proxy' logged'] by (simp add: t pi selected_routes_def)
qed


lemma getOperations_get_post:
  "Delete props = None \<Longrightarrow> Get props = Some g \<Longrightarrow> getOperations props = [(''GET'', g)]"
  by (simp add: getOperations_def)

lemma New_single_path:
  assumes "getOperations props = [(m, op)]"
  shows "router (fst (New base [(path, props)] d tgt v rp))
       = \<lparr>mux_routes = [\<lparr>route_path = base @ path, route_methods = [m]\<rparr>],
          NotFoundHandler = Some notFound_handler\<rparr>"
    and "routes (fst (New base [(path, props)] d tgt v rp)) = [0 \<mapsto> op]"
  using assms
  by (simp_all add: New_def registerPaths_def register_operation_def router_Handle_Methods_def
      NewRouter_def)

lemma other_method_unmatched:
  assumes "router proxy = \<lparr>mux_routes = [\<lparr>route_path = tpl, route_methods = [m]\<rparr>], NotFoundHandler = nf\<rparr>"
    and "Method req \<noteq> m"
  shows "matched_operation io proxy req = None"
  using assms
  by (simp add: matched_operation_def router_Match_def route_matches_def)

text \<open>
  A path item that declares no method: \<open>getOperations\<close> selects no operation, not one,
  and nothing is registered for its path.
\<close>

theorem getOperations_selects_one_counterexample:
  "getOperations no_operations = []
   \<and> length (getOperations no_operations) \<noteq> 1
   \<and> route_table (fst (New ''/api'' [(''/ping'', no_operations)] ([] :: bytes)
                         ''http://localhost:8080'' False backend_ok)) = []"
  by (simp add: getOperations_def no_operations_def New_def registerPaths_def route_table_def
      NewRouter_def)

text \<open>
  Claim C2, amended. \<open>getOperations\<close> selects the first method that the path item
  declares, in the order DELETE, GET, HEAD, OPTIONS, PATCH, POST, PUT: exactly one
  operation when the path item declares any method, none when it declares none.
  \<open>registerPaths\<close> adds to the route table just these selections, one route
  \<open>base + path\<close> with the selected method per path item, in the order of the
  iteration. For a path item that declares GET and POST and not DELETE, only GET is
  registered, and on the proxy built from that path item alone a POST request matches
  no route, whatever its path.
\<close>

theorem registerPaths_first_declared:
  "getOperations props = first_declared props
   \<and> length (getOperations props)
       = (if \<exists>m \<in> set method_precedence. declared props m \<noteq> None then 1 else 0)
   \<and> route_table (fst (registerPaths base paths (proxy, logged)))
       = route_table proxy @ selected_routes base paths
   \<and> (Delete props = None \<and> Get props = Some g \<and> Post props = Some p \<longrightarrow>
        getOperations props = [(''GET'', g)]
        \<and> route_table (fst (New base [(path, props)] d tgt v rp))
            = [(\<lparr>route_path = base @ path, route_methods = [''GET'']\<rparr>, Some g)]
        \<and> matched_operation io (fst (New base [(path, props)] d tgt v rp))
             \<lparr>Method = ''POST'', Path = x\<rparr> = None)"
proof -
  have a: "getOperations props = first_declared props"
    by (rule getOperations_eq_first_declared)
  have b: "length (getOperations props)
       = (if \<exists>m \<in> set method_precedence. declared props m \<noteq> None then 1 else 0)"
  proof (cases "first_declared props = []")
    case True
    then show ?thesis
      using first_declared_Nil [of props] by (simp add: a)
  next
    case False
    then have "length (first_declared props) = 1"
      using length_first_declared [of props] by (cases "first_declared props") auto
    with False show ?thesis
      using first_declared_Nil [of props] by (auto simp: a)
  qed
  have c: "route_table (fst (registerPaths base paths (proxy, logged)))
       = route_table proxy @ selected_routes base paths"
    by (rule route_table_registerPaths)
  have e: "getOperations props = [(''GET'', g)]
        \<and> route_table (fst (New base [(path, props)] d tgt v rp))
            = [(\<lparr>route_path = base @ path, route_methods = [''GET'']\<rparr>, Some g)]
        \<and> matched_operation io (fst (New base [(path, props)] d tgt v rp))
             \<lparr>Method = ''POST'', Path = x\<rparr> = None"
    if "Delete props = None" and "Get props = Some g" and "Post props = Some p"
  proof -
    from that have go: "getOperations props = [(''GET'', g)]"
      by (simp add: getOperations_get_post)
    note n = New_single_path [OF go, of base path d tgt v rp]
    have "route_table (fst (New base [(path, props)] d tgt v rp))
            = [(\<lparr>route_path = base @ path, route_methods = [''GET'']\<rparr>, Some g)]"
      by (simp add: route_table_def n)
    moreover have "matched_operation io (fst (New base [(path, props)] d tgt v rp))
             \<lparr>Method = ''POST'', Path = x\<rparr> = None"
      by (rule other_method_unmatched [OF n(1)]) simp
    ultimately show ?thesis using go by simp
  qed
  from a b c e show ?thesis by blast
qed

theorem registerPaths_first_declared_witness:
  "(\<exists>m \<in> set method_precedence. declared widgets_item m \<noteq> None)
   \<and> Delete widgets_item = None \<and> Get widgets_item = Some get_op \<and> Post widgets_item = Some post_op
   \<and> getOperations widgets_item = [(''GET'', get_op)]
   \<and> length (getOperations widgets_item) = 1
   \<and> route_table widgets_proxy = [(\<lparr>route_path = ''/api/widgets'', route_methods = [''GET'']\<rparr>, Some get_op)]
   \<and> matched_operation plain_io widgets_proxy post_widgets = None"
proof -
  have h: "Delete widgets_item = None" "Get widgets_item = Some get_op" "Post widgets_item = Some post_op"
    by (simp_all add: widgets_item_def no_operations_def)
  have d: "\<exists>m \<in> set method_precedence. declared widgets_item m \<noteq> None"
    by (simp add: method_precedence_def declared_def h)
  note t = registerPaths_first_declared [of widgets_item "''/api''" "[]" widgets_proxy "[]" get_op post_op
      "''/widgets''" "[] :: bytes" "''http://localhost:8080''" False backend_ok plain_io "''/api/widgets''"]
  from t h have "getOperations widgets_item = [(''GET'', get_op)]
        \<and> route_table (fst (New ''/api'' [(''/widgets'', widgets_item)] ([] :: bytes)
                              ''http://localhost:8080'' False backend_ok))
            = [(\<lparr>route_path = ''/api'' @ ''/widgets'', route_methods = [''GET'']\<rparr>, Some get_op)]
        \<and> matched_operation plain_io
             (fst (New ''/api'' [(''/widgets'', widgets_item)] ([] :: bytes)
                     ''http://localhost:8080'' False backend_ok))
             \<lparr>Method = ''POST'', Path = ''/api/widgets''\<rparr> = None"
    by blast
  then show ?thesis using h d
    by (simp add: widgets_proxy_def post_widgets_def)
qed


lemma Router_ServeHTTP_unmatched:
  assumes "NotFoundHandler (router proxy) = Some notFound_handler"
    and "match_Route (router_Match io (router proxy) req) = None"
  shows "Router_ServeHTTP io vs proxy req wd =
     Inr \<lparr>client = serve_sink io (reverseProxy proxy req) (client wd),
          reported = reported wd @ [Warning req ''Route not defined on the Spec'']\<rparr>"
proof -
  from assms have "match_Handler (router_Match io (router proxy) req) = Some notFound_handler"
    by (simp add: router_Match_def split: option.splits)
  then show ?thesis
    by (simp add: Router_ServeHTTP_def notFound_def report_def Let_def)
qed

text \<open>
  Claim C7 at a request that no route matches, POST \<open>/api/widgets\<close> on a contract that
  registers only GET for that path. \<open>Handler(next)\<close> reports the warning and returns
  without calling \<open>next\<close>: the caller's sink receives nothing, where the backend alone
  would have set a header and written the status 200 and a body. \<open>notFound\<close>, the
  other path for unmatched requests, reports the same warning and does forward.
\<close>

theorem Handler_unmatched_not_forwarded:
  "matched_operation plain_io widgets_proxy post_widgets = None
   \<and> Handler plain_io toy_checkers widgets_proxy backend_ok post_widgets fresh_world
       = Inr \<lparr>client = empty_sink,
              reported = [Warning post_widgets ''Route not defined on the Spec'']\<rparr>
   \<and> serve_sink plain_io (backend_ok post_widgets) empty_sink
       = \<lparr>sink_header = [''X-Rate-Limit'' \<mapsto> [''10'']],
          sink_calls = [SinkWriteHeader 200, SinkWrite [0x7B, 0x7D]]\<rparr>
   \<and> notFound plain_io widgets_proxy post_widgets fresh_world
       = \<lparr>client = \<lparr>sink_header = [''X-Rate-Limit'' \<mapsto> [''10'']],
                     sink_calls = [SinkWriteHeader 200, SinkWrite [0x7B, 0x7D]]\<rparr>,
          reported = [Warning post_widgets ''Route not defined on the Spec'']\<rparr>"
proof -
  have s: "serve_sink plain_io (backend_ok post_widgets) empty_sink
       = \<lparr>sink_header = [''X-Rate-Limit'' \<mapsto> [''10'']],
          sink_calls = [SinkWriteHeader 200, SinkWrite [0x7B, 0x7D]]\<rparr>"
    by (simp add: backend_ok_def empty_sink_def sink_HeaderSet_def header_Set_def
        sink_WriteHeader_def sink_Write_def plain_io_def)
  have rp: "reverseProxy widgets_proxy = backend_ok"
    by (simp add: demo_defs)
  have h: "Handler plain_io toy_checkers widgets_proxy backend_ok post_widgets fresh_world
       = Inr \<lparr>client = empty_sink,
              reported = [Warning post_widgets ''Route not defined on the Spec'']\<rparr>"
    by (simp add: Handler_unmatched [OF widgets_post] report_def fresh_world_def)
  have n: "notFound plain_io widgets_proxy post_widgets fresh_world
       = \<lparr>client = \<lparr>sink_header = [''X-Rate-Limit'' \<mapsto> [''10'']],
                     sink_calls = [SinkWriteHeader 200, SinkWrite [0x7B, 0x7D]]\<rparr>,
          reported = [Warning post_widgets ''Route not defined on the Spec'']\<rparr>"
    by (simp add: notFound_def Let_def report_def rp fresh_world_def s)
  from widgets_post h s n show ?thesis by blast
qed

lemma Handler_nil_Responses:
  assumes "matched_operation io proxy req = Some op" and "Responses op = None"
  shows "Handler io vs proxy next req wd = Inl Nil_pointer_dereference"
  by (simp add: Handler_matched [OF assms(1)] assms(2) Let_def)

lemma bare_get: "matched_operation plain_io bare_proxy get_widgets = Some bare_op"
  by (simp add: matched_operation_def router_Match_def route_matches_def plain_io_def
      get_widgets_def bare_proxy_def New_def registerPaths_def register_operation_def
      getOperations_def bare_item_def no_operations_def router_Handle_Methods_def NewRouter_def)

text \<open>
  Claim C1 at a matched request whose operation has no \<open>responses\<close> object. The
  backend answers with a header, the status 200 and a body, through the recorder; then
  \<open>op.Responses.StatusCodeResponses\<close> dereferences the nil pointer and the handler
  panics instead of returning, so the exchange with the caller is not completed as the
  backend alone would have completed it.
\<close>

theorem Handler_nil_Responses_not_delivered:
  "matched_operation plain_io bare_proxy get_widgets = Some bare_op
   \<and> Responses bare_op = None
   \<and> Handler plain_io toy_checkers bare_proxy backend_ok get_widgets fresh_world
       = Inl Nil_pointer_dereference
   \<and> serve_sink plain_io (backend_ok get_widgets) (client fresh_world)
       = \<lparr>sink_header = [''X-Rate-Limit'' \<mapsto> [''10'']],
          sink_calls = [SinkWriteHeader 200, SinkWrite [0x7B, 0x7D]]\<rparr>"
proof -
  have r: "Responses bare_op = None"
    by (simp add: bare_op_def)
  have v: "serve_sink plain_io (backend_ok get_widgets) (client fresh_world)
       = \<lparr>sink_header = [''X-Rate-Limit'' \<mapsto> [''10'']],
          sink_calls = [SinkWriteHeader 200, SinkWrite [0x7B, 0x7D]]\<rparr>"
    by (simp add: backend_ok_def fresh_world_def empty_sink_def sink_HeaderSet_def header_Set_def
        sink_WriteHeader_def sink_Write_def plain_io_def)
  from Handler_nil_Responses [OF bare_get r, of toy_checkers backend_ok fresh_world] bare_get r v
  show ?thesis by blast
qed

text \<open>
  Claim C6 at a matched request whose operation has no \<open>responses\<close> object, hence no
  entry for the recorded status 404. The handler does not report "Server Status 404 not
  defined by the spec": it panics on the nil \<open>op.Responses\<close> before any notification is
  made.
\<close>

theorem Handler_nil_Responses_no_Error:
  "matched_operation plain_io bare_proxy get_widgets = Some bare_op
   \<and> Responses bare_op = None
   \<and> Status (serve_recorder plain_io (backend_404 get_widgets) (new_WriterRecorder (client fresh_world)))
       = 404
   \<and> Handler plain_io toy_checkers bare_proxy backend_404 get_widgets fresh_world
       = Inl Nil_pointer_dereference
   \<and> Handler plain_io toy_checkers bare_proxy backend_404 get_widgets fresh_world
       \<noteq> Inr \<lparr>client = \<lparr>sink_header = Map.empty,
                         sink_calls = [SinkWriteHeader 404, SinkWrite [0x7B, 0x7D]]\<rparr>,
              reported = [Error get_widgets (Errorf ''Server Status 404 not defined by the spec'')]\<rparr>"
proof -
  have r: "Responses bare_op = None"
    by (simp add: bare_op_def)
  have st: "Status (serve_recorder plain_io (backend_404 get_widgets) (new_WriterRecorder (client fresh_world)))
       = 404"
    by (simp add: backend_404_def Status_Write) (simp add: WriteHeader_def Status_def)
  have h: "Handler plain_io toy_checkers bare_proxy backend_404 get_widgets fresh_world
       = Inl Nil_pointer_dereference"
    by (rule Handler_nil_Responses [OF bare_get r])
  from bare_get r st h show ?thesis by simp
qed

end
